theory Spec2Isabelle
  imports Main "HOL-Library.Char_ord" "HOL-Library.List_Lexorder"
begin

section \<open>Friendship identifiers (src/lib/firestoreFriendships.ts)\<close>

text \<open>
  User ids are JavaScript strings. They are modelled as \<^typ>\<open>string\<close>; the order on
  strings is the lexicographic order on character codes (the order of JavaScript's
  \<open><\<close> on strings).
\<close>

text \<open>
  Modelled from the spec: \<open>sortUserIds\<close> is imported from \<open>./socialTypes\<close>, and the
  copy of that module in the repository does not define it. The spec describes the
  friendship id as "derived from the lexicographically sorted pair", so the helper
  returns its two arguments in ascending lexicographic order.
\<close>
definition sortUserIds :: "string \<Rightarrow> string \<Rightarrow> string \<times> string" where
  "sortUserIds uid1 uid2 = (if uid1 \<le> uid2 then (uid1, uid2) else (uid2, uid1))"

text \<open>
  \<^verbatim>\<open>const [a, b] = sortUserIds(uid1, uid2); return `${a}_${b}`\<close>
\<close>
definition generateFriendshipId :: "string \<Rightarrow> string \<Rightarrow> string" where
  "generateFriendshipId uid1 uid2 =
     (case sortUserIds uid1 uid2 of (a, b) \<Rightarrow> a @ ''_'' @ b)"


section \<open>Cloud reconciliation of boards\<close>

text \<open>The \<open>Board\<close> objects of the tests of \<open>firestoreBoards\<close>.\<close>
record board =
  board_id :: string
  board_name :: string
  coverImage :: "string option"
  board_createdAt :: int
  board_updatedAt :: int
  board_deletedAt :: "int option"

text \<open>
  Modelled from the spec: the module \<open>firestoreBoards\<close> that defines \<open>mergeBoards\<close> is
  not among the sources (only its test file is). The spec's \<open>mergeEntity\<close>: local
  absent gives the remote copy; remote absent gives the local copy; both present gives
  the local copy. An absent copy (\<open>null\<close>) is \<^const>\<open>None\<close>.
\<close>
definition mergeBoards :: "board option \<Rightarrow> board option \<Rightarrow> board option" where
  "mergeBoards local cloud =
     (if local = None then cloud
      else if cloud = None then local
      else local)"

text \<open>The entity of a list at an id: the first element that carries the id.\<close>
definition boardAt :: "board list \<Rightarrow> string \<Rightarrow> board option" where
  "boardAt bs i = find (\<lambda>b. board_id b = i) bs"

definition boardIds :: "board list \<Rightarrow> string list" where
  "boardIds bs = map board_id bs"

text \<open>
  Modelled from the spec: \<open>mergeBoardLists\<close> lives in the same absent module. The
  spec's \<open>mergeList\<close>: the ids are the union of the ids of the two lists; for each id
  the local and the remote entity at that id are merged with \<open>mergeEntity\<close>; the result
  holds the merged entities, one per id.
\<close>
definition mergeBoardLists :: "board list \<Rightarrow> board list \<Rightarrow> board list" where
  "mergeBoardLists localBoards cloudBoards =
     List.map_filter (\<lambda>i. mergeBoards (boardAt localBoards i) (boardAt cloudBoards i))
       (remdups (boardIds localBoards @ boardIds cloudBoards))"



text \<open>The boards of the test "should combine local and cloud boards by ID".\<close>
definition mockBoard :: board where
  "mockBoard = \<lparr>board_id = ''board-123'', board_name = ''Test Board'', coverImage = None,
     board_createdAt = 0, board_updatedAt = 10000, board_deletedAt = None\<rparr>"

definition testLocalBoards :: "board list" where
  "testLocalBoards =
     [mockBoard\<lparr>board_id := ''board-1'', board_name := ''Local Board 1''\<rparr>,
      mockBoard\<lparr>board_id := ''board-2'', board_name := ''Local Board 2''\<rparr>]"

definition testCloudBoards :: "board list" where
  "testCloudBoards =
     [mockBoard\<lparr>board_id := ''board-2'', board_name := ''Cloud Board 2''\<rparr>,
      mockBoard\<lparr>board_id := ''board-3'', board_name := ''Cloud Board 3''\<rparr>]"


section \<open>Promises and thrown values\<close>

text \<open>
  What a \<open>catch (error)\<close> clause receives: an \<open>Error\<close> object with its message, or any
  other thrown value. The handlers of this repository read it with
  \<^verbatim>\<open>error instanceof Error ? error.message : '<default>'\<close>.
\<close>
datatype thrown = ErrorObj string | OtherValue

definition messageOr :: "thrown \<Rightarrow> string \<Rightarrow> string" where
  "messageOr e dflt = (case e of ErrorObj m \<Rightarrow> m | OtherValue \<Rightarrow> dflt)"

text \<open>
  The outcome of an awaited call: \<^const>\<open>Inl\<close> is a rejection (the \<open>await\<close> throws),
  \<^const>\<open>Inr\<close> the value it resolves to.
\<close>
type_synonym 'a promise = "thrown + 'a"

text \<open>
  Decimal rendering of a number inside a template literal. \<open>digitChar\<close> is only applied
  to numbers below 10.
\<close>
definition digitChar :: "nat \<Rightarrow> char" where
  "digitChar d = ''0123456789'' ! d"

function numberToString :: "nat \<Rightarrow> string" where
  "numberToString n =
     (if n < 10 then [digitChar n] else numberToString (n div 10) @ [digitChar (n mod 10)])"
  by pat_completeness auto
termination
  by (relation "measure (\<lambda>n. n)") auto

declare numberToString.simps [simp del]


section \<open>Rate limiting (src/lib/rateLimiting.ts)\<close>

definition ONE_DAY_MS :: int where
  "ONE_DAY_MS = 24 * 60 * 60 * 1000"

record rateLimit =
  count :: nat
  windowMs :: int

definition RATE_LIMITS_friendRequests :: rateLimit where
  "RATE_LIMITS_friendRequests = \<lparr>count = 20, windowMs = ONE_DAY_MS\<rparr>"

definition RATE_LIMITS_reports :: rateLimit where
  "RATE_LIMITS_reports = \<lparr>count = 10, windowMs = ONE_DAY_MS\<rparr>"

definition RATE_LIMITS_boards :: rateLimit where
  "RATE_LIMITS_boards = \<lparr>count = 50, windowMs = ONE_DAY_MS\<rparr>"

record rateLimitResult =
  allowed :: bool
  remaining :: int
  rl_error :: "string option"

text \<open>
  A document of the backing store, as far as the query of \<open>countDocumentsSince\<close> reads
  it: its string-valued fields (by field name) and its \<open>createdAt\<close> timestamp in
  milliseconds.
\<close>
record document =
  stringFields :: "(string \<times> string) list"
  doc_createdAt :: int

text \<open>
  The backing store seen by the rate limiter. \<open>queryFault\<close> is the value thrown inside
  the \<open>try\<close> block of \<open>countDocumentsSince\<close> (by \<open>getFirebaseDb\<close>, the dynamic import or
  \<open>getDocs\<close>) when the store cannot be reached; \<open>documents\<close> gives the documents of each
  named collection.
\<close>
record backend =
  queryFault :: "thrown option"
  documents :: "string \<Rightarrow> document list"

text \<open>
  The query
  \<^verbatim>\<open>query(collection(db, collectionName), where(userIdField, '==', userId),
        where('createdAt', '>=', sinceTimestamp))\<close>
  and the \<open>size\<close> of its result.
\<close>
definition matchesQuery :: "string \<Rightarrow> string \<Rightarrow> int \<Rightarrow> document \<Rightarrow> bool" where
  "matchesQuery userIdField userId sinceMs d \<longleftrightarrow>
     map_of (stringFields d) userIdField = Some userId \<and> sinceMs \<le> doc_createdAt d"

definition getDocsSize :: "backend \<Rightarrow> string \<Rightarrow> string \<Rightarrow> string \<Rightarrow> int \<Rightarrow> nat promise" where
  "getDocsSize be collectionName userId userIdField sinceMs =
     (case queryFault be of
        Some e \<Rightarrow> Inl e
      | None \<Rightarrow> Inr (length (filter (matchesQuery userIdField userId sinceMs)
                                (documents be collectionName))))"

text \<open>
  \<open>countDocumentsSince\<close>: 0 in mock mode; otherwise the size of the query's result, and
  0 when anything inside the \<open>try\<close> block throws ("Default to allowing on error"). The
  first argument is the constant \<open>USE_MOCK_AUTH\<close> of \<open>./firebase\<close>, which is not among
  the sources. The \<open>console.error\<close> of the handler is not modelled.
\<close>
definition countDocumentsSince ::
    "bool \<Rightarrow> backend \<Rightarrow> string \<Rightarrow> string \<Rightarrow> string \<Rightarrow> int \<Rightarrow> nat promise" where
  "countDocumentsSince USE_MOCK_AUTH be collectionName userId userIdField sinceMs =
     (if USE_MOCK_AUTH then Inr 0
      else (case getDocsSize be collectionName userId userIdField sinceMs of
              Inr n \<Rightarrow> Inr n
            | Inl e \<Rightarrow> Inr 0))"

definition notSignedIn :: rateLimitResult where
  "notSignedIn = \<lparr>allowed = False, remaining = 0, rl_error = Some ''Not signed in''\<rparr>"

text \<open>
  The part the three checks share after the count is known:
  \<^verbatim>\<open>remaining = Math.max(0, count - currentCount); allowed = remaining > 0\<close>
  and the error message, which is \<open>undefined\<close> when allowed.
\<close>
definition limitResult :: "nat \<Rightarrow> nat \<Rightarrow> string \<Rightarrow> rateLimitResult" where
  "limitResult cnt currentCount message =
     (let remaining = max 0 (int cnt - int currentCount);
          allowed = (remaining > 0)
      in \<lparr>allowed = allowed, remaining = remaining,
          rl_error = (if allowed then None else Some message)\<rparr>)"

text \<open>
  The three checks. \<open>now\<close> is the value of \<open>Date.now()\<close>. The test \<open>!userId\<close> holds for
  \<open>null\<close> and for the empty string. An awaited rejection of \<open>countDocumentsSince\<close>
  would reject the check as well (\<^const>\<open>Inl\<close>).
\<close>
definition checkFriendRequestLimit ::
    "bool \<Rightarrow> backend \<Rightarrow> int \<Rightarrow> string option \<Rightarrow> rateLimitResult promise" where
  "checkFriendRequestLimit USE_MOCK_AUTH be now userId =
     (case userId of
        None \<Rightarrow> Inr notSignedIn
      | Some uid \<Rightarrow>
        if uid = [] then Inr notSignedIn
        else
        let cnt = count RATE_LIMITS_friendRequests;
            sinceMs = now - windowMs RATE_LIMITS_friendRequests
        in (case countDocumentsSince USE_MOCK_AUTH be ''friendships'' uid
                   ''requestedBy'' sinceMs of
              Inl e \<Rightarrow> Inl e
            | Inr currentCount \<Rightarrow>
                Inr (limitResult cnt currentCount
                      (''You can only send '' @ numberToString cnt @
                       '' friend requests per day. Please try again later.''))))"

definition checkReportLimit ::
    "bool \<Rightarrow> backend \<Rightarrow> int \<Rightarrow> string option \<Rightarrow> rateLimitResult promise" where
  "checkReportLimit USE_MOCK_AUTH be now userId =
     (case userId of
        None \<Rightarrow> Inr notSignedIn
      | Some uid \<Rightarrow>
        if uid = [] then Inr notSignedIn
        else
        let cnt = count RATE_LIMITS_reports;
            sinceMs = now - windowMs RATE_LIMITS_reports
        in (case countDocumentsSince USE_MOCK_AUTH be ''reports'' uid
                   ''reporterId'' sinceMs of
              Inl e \<Rightarrow> Inl e
            | Inr currentCount \<Rightarrow>
                Inr (limitResult cnt currentCount
                      (''You can only submit '' @ numberToString cnt @
                       '' reports per day. Please try again later.''))))"

definition checkBoardCreationLimit ::
    "bool \<Rightarrow> backend \<Rightarrow> int \<Rightarrow> string option \<Rightarrow> rateLimitResult promise" where
  "checkBoardCreationLimit USE_MOCK_AUTH be now userId =
     (case userId of
        None \<Rightarrow> Inr notSignedIn
      | Some uid \<Rightarrow>
        if uid = [] then Inr notSignedIn
        else
        let cnt = count RATE_LIMITS_boards;
            sinceMs = now - windowMs RATE_LIMITS_boards
        in (case countDocumentsSince USE_MOCK_AUTH be ''boards'' uid
                   ''ownerId'' sinceMs of
              Inl e \<Rightarrow> Inl e
            | Inr currentCount \<Rightarrow>
                Inr (limitResult cnt currentCount
                      (''You can only create '' @ numberToString cnt @
                       '' boards per day. Please try again later.''))))"

text \<open>
  The number of reports of a user in the trailing window that ends at \<open>now\<close>: what
  the claim about \<open>checkReportLimit\<close> counts.
\<close>
definition reportsInWindow :: "backend \<Rightarrow> int \<Rightarrow> string \<Rightarrow> nat" where
  "reportsInWindow be now u =
     length (filter (\<lambda>d. map_of (stringFields d) ''reporterId'' = Some u \<and>
                          now - ONE_DAY_MS \<le> doc_createdAt d)
               (documents be ''reports''))"

text \<open>A store that holds \<open>n\<close> reports of user \<open>u\<close>, all created at time \<open>t\<close>.\<close>
definition reportsStore :: "thrown option \<Rightarrow> nat \<Rightarrow> string \<Rightarrow> int \<Rightarrow> backend" where
  "reportsStore fault n u t =
     \<lparr>queryFault = fault,
      documents = (\<lambda>c. if c = ''reports''
                        then replicate n \<lparr>stringFields = [(''reporterId'', u)], doc_createdAt = t\<rparr>
                        else [])\<rparr>"


section \<open>The friendship service (src/lib/firestoreFriendships.ts)\<close>

text \<open>
  The type \<open>Friendship\<close> is imported from \<open>./socialTypes\<close> and is not among the
  sources. Its fields are the ones \<open>createFriendRequest\<close> writes (\<open>id\<close>, \<open>users\<close>,
  \<open>status\<close>, \<open>requestedBy\<close>, \<open>createdAt\<close>) and the one \<open>acceptFriendRequest\<close> adds
  (\<open>acceptedAt\<close>, absent until then); the status values are the two the functions
  write and test.
\<close>
datatype friendshipStatus = pending | active

record friendship =
  fr_id :: string
  users :: "string list"
  status :: friendshipStatus
  requestedBy :: string
  fr_createdAt :: int
  acceptedAt :: "int option"

record friendshipResult =
  success :: bool
  res_friendshipId :: "string option"
  error :: "string option"

text \<open>
  The Firestore collaborator seen by the friendship service: the documents of the
  collection \<open>friendships\<close> by document id, and the value each kind of awaited call
  throws when it is rejected: \<open>connectFault\<close> for \<open>getFirebaseDb()\<close> and the dynamic
  import, \<open>getDocFault\<close> for \<open>getDoc\<close>, \<open>writeFault\<close> for \<open>setDoc\<close>, \<open>updateDoc\<close> and
  \<open>deleteDoc\<close>.
\<close>
record firestore =
  connectFault :: "thrown option"
  getDocFault :: "thrown option"
  writeFault :: "thrown option"
  friendshipDocs :: "string \<Rightarrow> friendship option"

definition noFaults :: "firestore \<Rightarrow> bool" where
  "noFaults fs \<longleftrightarrow> connectFault fs = None \<and> getDocFault fs = None \<and> writeFault fs = None"

text \<open>\<^verbatim>\<open>{ success: false, error: msg }\<close> and \<^verbatim>\<open>{ success: true, friendshipId }\<close>.\<close>
definition failed :: "string \<Rightarrow> friendshipResult" where
  "failed msg = \<lparr>success = False, res_friendshipId = None, error = Some msg\<rparr>"

definition succeeded :: "string \<Rightarrow> friendshipResult" where
  "succeeded fid = \<lparr>success = True, res_friendshipId = Some fid, error = None\<rparr>"

text \<open>
  \<open>createFriendRequest\<close>. The arguments before the user ids are the constant
  \<open>USE_MOCK_AUTH\<close>, the time \<open>serverTimestamp()\<close> resolves to, and the store; the
  store after the call is returned with the result. Every \<^const>\<open>Some\<close> fault is a
  jump to the \<open>catch\<close> clause. The \<open>console.error\<close> calls are not modelled.
\<close>
definition createFriendRequest ::
    "bool \<Rightarrow> int \<Rightarrow> firestore \<Rightarrow> string \<Rightarrow> string \<Rightarrow> friendshipResult \<times> firestore" where
  "createFriendRequest USE_MOCK_AUTH now fs fromUid toUid =
     (if fromUid = toUid then (failed ''You can't send a friend request to yourself'', fs)
      else if USE_MOCK_AUTH then (succeeded (generateFriendshipId fromUid toUid), fs)
      else
        (case connectFault fs of
           Some e \<Rightarrow> (failed (messageOr e ''Failed to send friend request''), fs)
         | None \<Rightarrow>
            let friendshipId = generateFriendshipId fromUid toUid in
            (case getDocFault fs of
               Some e \<Rightarrow> (failed (messageOr e ''Failed to send friend request''), fs)
             | None \<Rightarrow>
                (case (case friendshipDocs fs friendshipId of
                         None \<Rightarrow> None
                       | Some existing \<Rightarrow>
                           if status existing = active
                           then Some ''You are already friends with this user''
                           else if status existing = pending
                           then Some ''A friend request is already pending''
                           else None) of
                   Some msg \<Rightarrow> (failed msg, fs)
                 | None \<Rightarrow>
                    (case sortUserIds fromUid toUid of (sortedA, sortedB) \<Rightarrow>
                      (case writeFault fs of
                         Some e \<Rightarrow> (failed (messageOr e ''Failed to send friend request''), fs)
                       | None \<Rightarrow>
                          (succeeded friendshipId,
                           fs\<lparr>friendshipDocs := (friendshipDocs fs)(friendshipId \<mapsto>
                              \<lparr>fr_id = friendshipId, users = [sortedA, sortedB],
                               status = pending, requestedBy = fromUid,
                               fr_createdAt = now, acceptedAt = None\<rparr>)\<rparr>)))))))"

definition acceptFriendRequest ::
    "bool \<Rightarrow> int \<Rightarrow> firestore \<Rightarrow> string \<Rightarrow> string \<Rightarrow> friendshipResult \<times> firestore" where
  "acceptFriendRequest USE_MOCK_AUTH now fs friendshipId acceptingUid =
     (if USE_MOCK_AUTH then (succeeded friendshipId, fs)
      else
        (case connectFault fs of
           Some e \<Rightarrow> (failed (messageOr e ''Failed to accept friend request''), fs)
         | None \<Rightarrow>
            (case getDocFault fs of
               Some e \<Rightarrow> (failed (messageOr e ''Failed to accept friend request''), fs)
             | None \<Rightarrow>
                (case friendshipDocs fs friendshipId of
                   None \<Rightarrow> (failed ''Friend request not found'', fs)
                 | Some friendship \<Rightarrow>
                    if requestedBy friendship = acceptingUid
                    then (failed ''You can't accept your own friend request'', fs)
                    else if acceptingUid \<notin> set (users friendship)
                    then (failed ''You are not part of this friend request'', fs)
                    else
                      (case writeFault fs of
                         Some e \<Rightarrow> (failed (messageOr e ''Failed to accept friend request''), fs)
                       | None \<Rightarrow>
                          (succeeded friendshipId,
                           fs\<lparr>friendshipDocs := (friendshipDocs fs)(friendshipId \<mapsto>
                              friendship\<lparr>status := active, acceptedAt := Some now\<rparr>)\<rparr>))))))"



text \<open>Example stores: no document; one request of \<open>u1\<close> to \<open>u2\<close>, pending or active.\<close>
definition emptyFirestore :: firestore where
  "emptyFirestore = \<lparr>connectFault = None, getDocFault = None, writeFault = None,
     friendshipDocs = (\<lambda>i. None)\<rparr>"

definition requestU1U2 :: "friendshipStatus \<Rightarrow> friendship" where
  "requestU1U2 st = \<lparr>fr_id = ''u1_u2'', users = [''u1'', ''u2''], status = st,
     requestedBy = ''u1'', fr_createdAt = 1000, acceptedAt = None\<rparr>"

definition firestoreU1U2 :: "friendshipStatus \<Rightarrow> firestore" where
  "firestoreU1U2 st = emptyFirestore\<lparr>friendshipDocs := [''u1_u2'' \<mapsto> requestU1U2 st]\<rparr>"


section \<open>The local store\<close>

datatype metaValue = MetaString string | MetaNumber int

text \<open>
  A \<open>Card\<close>, with the fields of the card objects the seed loader builds. The types
  \<open>Board\<close>, \<open>Card\<close>, \<open>Snapshot\<close> and \<open>RankingEntry\<close> come from \<open>../lib/types\<close>, which is
  not among the sources. \<open>imageCrop\<close> is only ever written as \<open>null\<close>; its numeric fields
  are kept by name. \<open>card_deletedAt\<close> is the \<open>deletedAt\<close> that the spec's \<open>softDelete\<close>
  sets; a card object without the field has \<^const>\<open>None\<close>.
\<close>
record card =
  card_id :: string
  boardId :: string
  card_name :: string
  nickname :: string
  imageKey :: "string option"
  thumbnailKey :: "string option"
  imageCrop :: "(string \<times> int) list option"
  card_notes :: string
  metadata :: "(string \<times> metaValue) list"
  rank :: nat
  card_createdAt :: int
  card_updatedAt :: int
  card_deletedAt :: "int option"

record rankingEntry =
  cardId :: string
  cardName :: string
  entry_rank :: nat
  entry_thumbnailKey :: "string option"

record snapshot =
  snapshot_id :: string
  snapshot_boardId :: string
  episodeNumber :: nat
  label :: string
  snapshot_notes :: string
  rankings :: "rankingEntry list"
  snapshot_createdAt :: int

text \<open>
  The device's persistent state: one keyed collection per entity kind, and the keys
  of the images saved in the image database.
\<close>
record localStore =
  boards :: "board list"
  cards :: "card list"
  snapshots :: "snapshot list"
  imageKeys :: "string list"

definition emptyStore :: localStore where
  "emptyStore = \<lparr>boards = [], cards = [], snapshots = [], imageKeys = []\<rparr>"

text \<open>
  Modelled from the spec: the module \<open>../lib/storage\<close> (\<open>saveBoard\<close>, \<open>saveCard\<close>,
  \<open>getBoard\<close>, \<open>getCardsByBoard\<close>, \<open>saveSnapshot\<close>, \<open>getSnapshotsByBoard\<close>) and
  \<open>saveImage\<close> of \<open>../lib/db\<close> are not among the sources. The spec's Entity Store is a
  keyed mapping per entity kind with get, put, delete and list-by-predicate: \<open>put\<close>
  replaces the entity that has the key, or adds the entity when none has it.
\<close>
fun putBy :: "('a \<Rightarrow> string) \<Rightarrow> 'a \<Rightarrow> 'a list \<Rightarrow> 'a list" where
  "putBy key x [] = [x]"
| "putBy key x (y # ys) = (if key y = key x then x # ys else y # putBy key x ys)"

text \<open>Modelled from the spec: \<open>get\<close> on the board collection.\<close>
definition getBoard :: "localStore \<Rightarrow> string \<Rightarrow> board option" where
  "getBoard s i = find (\<lambda>b. board_id b = i) (boards s)"

text \<open>Modelled from the spec: \<open>put\<close> on the board collection.\<close>
definition saveBoard :: "board \<Rightarrow> localStore \<Rightarrow> localStore" where
  "saveBoard b s = s\<lparr>boards := putBy board_id b (boards s)\<rparr>"

text \<open>Modelled from the spec: \<open>get\<close>, \<open>put\<close> and \<open>delete\<close> on the card collection.\<close>
definition getCard :: "localStore \<Rightarrow> string \<Rightarrow> card option" where
  "getCard s i = find (\<lambda>c. card_id c = i) (cards s)"

definition saveCard :: "card \<Rightarrow> localStore \<Rightarrow> localStore" where
  "saveCard c s = s\<lparr>cards := putBy card_id c (cards s)\<rparr>"





text \<open>Modelled from the spec: the image database keeps the key of a saved image.\<close>
definition saveImage :: "string \<Rightarrow> localStore \<Rightarrow> localStore" where
  "saveImage k s = s\<lparr>imageKeys := putBy (\<lambda>x. x) k (imageKeys s)\<rparr>"


section \<open>The seed data of Singles Inferno S5 (src/unnamed/part_004)\<close>

definition WOMEN_BOARD_ID :: string where
  "WOMEN_BOARD_ID = ''singles-inferno-s5-women''"

definition MEN_BOARD_ID :: string where
  "MEN_BOARD_ID = ''singles-inferno-s5-men''"

datatype gender = female | male

definition genderName :: "gender \<Rightarrow> string" where
  "genderName g = (case g of female \<Rightarrow> ''female'' | male \<Rightarrow> ''male'')"

text \<open>A cast member. The field \<open>imageUrl\<close> is never read and is left out.\<close>
record castMember =
  cm_id :: string
  cm_name :: string
  cm_notes :: string
  cm_gender :: gender

definition castMembers :: "castMember list" where
  "castMembers =
    [\<lparr>cm_id = ''si5-park-hee-sun'', cm_name = ''Park Hee Sun'', cm_notes = [], cm_gender = female\<rparr>,
     \<lparr>cm_id = ''si5-kim-go-eun'', cm_name = ''Kim Go Eun'', cm_notes = [], cm_gender = female\<rparr>,
     \<lparr>cm_id = ''si5-ham-ye-jin'', cm_name = ''Ham Ye Jin'', cm_notes = [], cm_gender = female\<rparr>,
     \<lparr>cm_id = ''si5-kim-min-ji'', cm_name = ''Kim Min Ji'', cm_notes = [], cm_gender = female\<rparr>,
     \<lparr>cm_id = ''si5-lee-joo-young'', cm_name = ''Lee Joo Young'', cm_notes = [], cm_gender = female\<rparr>,
     \<lparr>cm_id = ''si5-choi-mina-sue'', cm_name = ''Choi Mina Sue'', cm_notes = [], cm_gender = female\<rparr>,
     \<lparr>cm_id = ''si5-youn-hyun-jae'', cm_name = ''Youn Hyun Jae'', cm_notes = [], cm_gender = male\<rparr>,
     \<lparr>cm_id = ''si5-song-seung-il'', cm_name = ''Song Seung Il'', cm_notes = [], cm_gender = male\<rparr>,
     \<lparr>cm_id = ''si5-shin-hyeon-woo'', cm_name = ''Shin Hyeon Woo'', cm_notes = [], cm_gender = male\<rparr>,
     \<lparr>cm_id = ''si5-kim-jae-jin'', cm_name = ''Kim Jae Jin'', cm_notes = [], cm_gender = male\<rparr>,
     \<lparr>cm_id = ''si5-woo-sung-min'', cm_name = ''Woo Sung Min'', cm_notes = [], cm_gender = male\<rparr>,
     \<lparr>cm_id = ''si5-lim-su-been'', cm_name = ''Lim Su Been'', cm_notes = [], cm_gender = male\<rparr>,
     \<lparr>cm_id = ''si5-lee-sung-hun'', cm_name = ''Lee Sung Hun (Samuel Lee)'', cm_notes = [],
      cm_gender = male\<rparr>]"

record loadSeedDataResult =
  seed_success :: bool
  boardCreated :: bool
  cardsCreated :: nat
  imagesLoaded :: nat
  seed_errors :: "string list"

text \<open>
  Creating and saving the placeholder images of one key. \<open>imageFault k\<close> is the value
  thrown while the images of key \<open>k\<close> are drawn or saved, if any; drawing itself (a
  canvas) is not modelled.
\<close>
definition savePlaceholder ::
    "(string \<Rightarrow> thrown option) \<Rightarrow> string \<Rightarrow> localStore \<Rightarrow> thrown + localStore" where
  "savePlaceholder imageFault k s =
     (case imageFault k of Some e \<Rightarrow> Inl e | None \<Rightarrow> Inr (saveImage k s))"

text \<open>
  Step 3 of \<open>loadSinglesInfernoS5\<close> for one cast member: the state of the loop is the
  \<open>imageKeyMap\<close>, \<open>imagesLoaded\<close>, \<open>errors\<close> and the store.
\<close>
definition placeholderStep ::
    "(string \<Rightarrow> thrown option) \<Rightarrow>
     (string \<Rightarrow> string option) \<times> nat \<times> string list \<times> localStore \<Rightarrow> castMember \<Rightarrow>
     (string \<Rightarrow> string option) \<times> nat \<times> string list \<times> localStore" where
  "placeholderStep imageFault st member =
     (case st of (imageKeyMap, loaded, errors, s) \<Rightarrow>
        (case savePlaceholder imageFault (''image-'' @ cm_id member) s of
           Inr s' \<Rightarrow>
             (imageKeyMap(cm_id member \<mapsto> ''image-'' @ cm_id member), loaded + 1, errors, s')
         | Inl e \<Rightarrow>
             (imageKeyMap, loaded,
              errors @ [''Failed to create placeholder for '' @ cm_name member @ '': '' @
                        messageOr e ''Unknown error''], s)))"

text \<open>The card object of steps 4 and 5, for the member at index \<open>i\<close> of its list.\<close>
definition memberCard ::
    "string \<Rightarrow> (string \<Rightarrow> string option) \<Rightarrow> int \<Rightarrow> nat \<Rightarrow> castMember \<Rightarrow> card" where
  "memberCard b imageKeyMap now i member =
     (let key = imageKeyMap (cm_id member)
      in \<lparr>card_id = cm_id member, boardId = b, card_name = cm_name member, nickname = [],
          imageKey = key, thumbnailKey = key, imageCrop = None, card_notes = cm_notes member,
          metadata = [(''gender'', MetaString (genderName (cm_gender member))),
                      (''season'', MetaNumber 5)],
          rank = i + 1, card_createdAt = now, card_updatedAt = now, card_deletedAt = None\<rparr>)"

definition saveMemberCards ::
    "string \<Rightarrow> (string \<Rightarrow> string option) \<Rightarrow> int \<Rightarrow> castMember list \<Rightarrow> localStore \<Rightarrow> localStore" where
  "saveMemberCards b imageKeyMap now members s =
     foldl (\<lambda>s' (i, member). saveCard (memberCard b imageKeyMap now i member) s') s
       (enumerate 0 members)"

text \<open>
  \<open>loadSinglesInfernoS5\<close>. \<open>now\<close> is the value of \<open>Date.now()\<close>; the progress callback
  is not modelled. The assignment to \<open>coverImageKey\<close> is the first statement of the
  \<open>try\<close> block, so the key is set also when the poster cannot be created.
\<close>
definition loadSinglesInfernoS5 ::
    "(string \<Rightarrow> thrown option) \<Rightarrow> int \<Rightarrow> localStore \<Rightarrow> loadSeedDataResult \<times> localStore" where
  "loadSinglesInfernoS5 imageFault now s =
     (let women = filter (\<lambda>m. cm_gender m = female) castMembers;
          men = filter (\<lambda>m. cm_gender m = male) castMembers
      in if getBoard s WOMEN_BOARD_ID \<noteq> None \<and> getBoard s MEN_BOARD_ID \<noteq> None
         then (\<lparr>seed_success = True, boardCreated = False, cardsCreated = 0, imagesLoaded = 0,
                seed_errors = [''Singles Inferno S5 boards already exist'']\<rparr>, s)
         else
           let coverImageKey = Some (''poster-'' @ WOMEN_BOARD_ID);
               (loaded0, errors0, s0) =
                 (case savePlaceholder imageFault (''poster-'' @ WOMEN_BOARD_ID) s of
                    Inr s' \<Rightarrow> (1, [], s')
                  | Inl e \<Rightarrow>
                      (0, [''Failed to create poster: '' @ messageOr e ''Unknown error''], s));
               womenBoard = \<lparr>board_id = WOMEN_BOARD_ID, board_name = ''Singles Inferno S5 Girls'',
                  coverImage = coverImageKey, board_createdAt = now, board_updatedAt = now,
                  board_deletedAt = None\<rparr>;
               s1 = saveBoard womenBoard s0;
               menBoard = \<lparr>board_id = MEN_BOARD_ID, board_name = ''Singles Inferno S5 Boys'',
                  coverImage = coverImageKey, board_createdAt = now, board_updatedAt = now,
                  board_deletedAt = None\<rparr>;
               s2 = saveBoard menBoard s1;
               (imageKeyMap, loaded, errors, s3) =
                 foldl (placeholderStep imageFault) (Map.empty, loaded0, errors0, s2) castMembers;
               s4 = saveMemberCards WOMEN_BOARD_ID imageKeyMap now women s3;
               s5 = saveMemberCards MEN_BOARD_ID imageKeyMap now men s4
           in (\<lparr>seed_success = True, boardCreated = True,
                 cardsCreated = length women + length men, imagesLoaded = loaded,
                 seed_errors = errors\<rparr>, s5))"
















text \<open>
  A small store for examples: the two boards of the seed data, one card on each, no
  snapshot; and the fifth snapshot of the men's board that the loader builds from it.
\<close>
definition miniCard :: "string \<Rightarrow> string \<Rightarrow> string \<Rightarrow> card" where
  "miniCard i b n =
     \<lparr>card_id = i, boardId = b, card_name = n, nickname = [], imageKey = None,
      thumbnailKey = None, imageCrop = None, card_notes = [], metadata = [], rank = 1,
      card_createdAt = 0, card_updatedAt = 0, card_deletedAt = None\<rparr>"




section \<open>The Rank Manager\<close>

text \<open>
  Modelled from the spec: the code that appends, reorders and deletes cards (the hook
  \<open>useCards\<close> behind \<open>reorderCards\<close> and \<open>deleteCard\<close>) is not among the sources. The
  definitions of this section follow section 4.1 of the spec, over the keyed card
  collection of the local store.
\<close>
datatype rankError = ValidationError | OutOfRangeError | NotFoundError

text \<open>The cards of a board that count for its ranking: those with \<open>deletedAt == null\<close>.\<close>
definition activeCards :: "localStore \<Rightarrow> string \<Rightarrow> card list" where
  "activeCards s b = filter (\<lambda>c. boardId c = b \<and> card_deletedAt c = None) (cards s)"

text \<open>
  Modelled from the spec: \<open>currentMax(boardId)\<close>, the largest rank of the board's active
  cards, 0 without any.
\<close>
definition currentMax :: "localStore \<Rightarrow> string \<Rightarrow> nat" where
  "currentMax s b = fold max (map rank (activeCards s b)) 0"

text \<open>
  Modelled from the spec: \<open>append(card)\<close> fails with \<open>ValidationError\<close> if the card's
  board does not exist; otherwise it stores the card with
  \<open>rank = currentMax(boardId) + 1\<close>.
\<close>
definition appendCard :: "card \<Rightarrow> localStore \<Rightarrow> rankError + localStore" where
  "appendCard c s =
     (if getBoard s (boardId c) = None then Inl ValidationError
      else Inr (saveCard (c\<lparr>rank := currentMax s (boardId c) + 1\<rparr>) s))"

text \<open>
  Modelled from the spec: the ordered, non-deleted card list of a board, by current
  rank ascending.
\<close>
definition orderedCards :: "localStore \<Rightarrow> string \<Rightarrow> card list" where
  "orderedCards s b = sort_key rank (activeCards s b)"

text \<open>Remove the element at index \<open>i\<close> and reinsert it at index \<open>j\<close>.\<close>
definition moveItem :: "nat \<Rightarrow> nat \<Rightarrow> 'a list \<Rightarrow> 'a list" where
  "moveItem i j xs =
     (let rest = take i xs @ drop (Suc i) xs in take j rest @ [xs ! i] @ drop j rest)"

text \<open>The index of the card with id \<open>i\<close> in a list of cards.\<close>
fun positionOf :: "string \<Rightarrow> card list \<Rightarrow> nat option" where
  "positionOf i [] = None"
| "positionOf i (c # cs) = (if card_id c = i then Some 0 else map_option Suc (positionOf i cs))"

text \<open>
  Modelled from the spec: the rewrite of one card after a reorder. A card of the new
  list order gets the rank of its place in the list, and a card whose rank changes
  gets the new \<open>updatedAt\<close>.
\<close>
definition rerank :: "int \<Rightarrow> card list \<Rightarrow> card \<Rightarrow> card" where
  "rerank now newOrder c =
     (case positionOf (card_id c) newOrder of
        None \<Rightarrow> c
      | Some k \<Rightarrow> if rank c = k + 1 then c else c\<lparr>rank := k + 1, card_updatedAt := now\<rparr>)"

text \<open>
  Modelled from the spec: \<open>reorder(boardId, cardId, fromIndex, toIndex)\<close> fails with
  \<open>OutOfRangeError\<close> unless both indices are within the ordered list and the card at
  \<open>fromIndex\<close> has the id \<open>cardId\<close>; otherwise it moves the card and re-derives the
  ranks \<open>1..N\<close> from the new list order, in one rewrite of the card collection.
\<close>
definition reorder ::
    "int \<Rightarrow> string \<Rightarrow> string \<Rightarrow> int \<Rightarrow> int \<Rightarrow> localStore \<Rightarrow> rankError + localStore" where
  "reorder now b cid fromIndex toIndex s =
     (let cs = orderedCards s b; n = int (length cs)
      in if \<not> (0 \<le> fromIndex \<and> fromIndex < n \<and> 0 \<le> toIndex \<and> toIndex < n)
         then Inl OutOfRangeError
         else if card_id (cs ! nat fromIndex) \<noteq> cid then Inl OutOfRangeError
         else Inr (s\<lparr>cards :=
                map (rerank now (moveItem (nat fromIndex) (nat toIndex) cs)) (cards s)\<rparr>))"

text \<open>
  Modelled from the spec: the rewrite of one card when the card \<open>target\<close> is
  soft-deleted. The target gets its \<open>deletedAt\<close>; a surviving card of the same board
  with a greater rank moves up by one.
\<close>
definition afterDelete :: "int \<Rightarrow> card \<Rightarrow> card \<Rightarrow> card" where
  "afterDelete now target c =
     (if card_id c = card_id target then c\<lparr>card_deletedAt := Some now\<rparr>
      else if boardId c = boardId target \<and> card_deletedAt c = None \<and> rank target < rank c
      then c\<lparr>rank := rank c - 1\<rparr>
      else c)"

text \<open>
  Modelled from the spec: \<open>softDelete(cardId)\<close> sets \<open>deletedAt\<close> on the card and
  decrements the rank of every surviving card of its board whose rank is greater than
  the deleted card's prior rank. A card id that does not resolve gives
  \<open>NotFoundError\<close>.
\<close>
definition softDelete :: "int \<Rightarrow> string \<Rightarrow> localStore \<Rightarrow> rankError + localStore" where
  "softDelete now cid s =
     (case getCard s cid of
        None \<Rightarrow> Inl NotFoundError
      | Some target \<Rightarrow> Inr (s\<lparr>cards := map (afterDelete now target) (cards s)\<rparr>))"

text \<open>
  The operations as data, and a sequence of them applied to a store. An operation
  that fails returns its error to the caller and leaves the store as it was. Next
  to the three operations of the Rank Manager stands the one function of the sources
  that writes ranks, the seed loader \<open>loadSinglesInfernoS5\<close>, with the faults of its
  image store and its value of \<open>Date.now()\<close>.
\<close>
datatype rankOp =
    Append card
  | Reorder int string string int int
  | SoftDelete int string
  | LoadSeed "string \<Rightarrow> thrown option" int

fun applyRankOp :: "localStore \<Rightarrow> rankOp \<Rightarrow> rankError + localStore" where
  "applyRankOp s (Append c) = appendCard c s"
| "applyRankOp s (Reorder now b cid fromIndex toIndex) = reorder now b cid fromIndex toIndex s"
| "applyRankOp s (SoftDelete now cid) = softDelete now cid s"
| "applyRankOp s (LoadSeed imageFault now) = Inr (snd (loadSinglesInfernoS5 imageFault now s))"

definition stepRankOp :: "localStore \<Rightarrow> rankOp \<Rightarrow> localStore" where
  "stepRankOp s opn = (case applyRankOp s opn of Inl e \<Rightarrow> s | Inr s' \<Rightarrow> s')"

definition runRankOps :: "localStore \<Rightarrow> rankOp list \<Rightarrow> localStore" where
  "runRankOps s ops = foldl stepRankOp s ops"

text \<open>
  The invariant of the data model for one board: the ranks of its active cards are
  pairwise different and form exactly the set \<open>{1..N}\<close>, \<open>N\<close> the number of those cards.
\<close>
definition denseRanks :: "localStore \<Rightarrow> string \<Rightarrow> bool" where
  "denseRanks s b \<longleftrightarrow>
     distinct (map rank (activeCards s b)) \<and>
     set (map rank (activeCards s b)) = {1..length (activeCards s b)}"

text \<open>The store is a keyed mapping: no two cards share an id.\<close>
definition keyedCards :: "localStore \<Rightarrow> bool" where
  "keyedCards s \<longleftrightarrow> distinct (map card_id (cards s))"



text \<open>A board \<open>b1\<close> without cards, and three cards for it.\<close>
definition boardB1 :: localStore where
  "boardB1 = emptyStore\<lparr>boards :=
     [\<lparr>board_id = ''b1'', board_name = ''Board'', coverImage = None, board_createdAt = 0,
       board_updatedAt = 0, board_deletedAt = None\<rparr>]\<rparr>"

definition cardA :: card where "cardA = miniCard ''A'' ''b1'' ''A''"
definition cardB :: card where "cardB = miniCard ''B'' ''b1'' ''B''"
definition cardC :: card where "cardC = miniCard ''C'' ''b1'' ''C''"


definition deleteTwiceOps :: "rankOp list" where
  "deleteTwiceOps =
     [Append cardA, Append cardB, Append cardC, SoftDelete 5 ''A'', SoftDelete 6 ''A'']"

definition appendTwiceOps :: "rankOp list" where
  "appendTwiceOps = [Append cardA, Append cardB, Append cardA]"



section \<open>Properties of the friendship identifier\<close>

text \<open>
  Claim C6. For all user ids \<open>a\<close> and \<open>b\<close>, \<open>generateFriendshipId(a, b)\<close> equals
  \<open>generateFriendshipId(b, a)\<close>, and the id is the lexicographically smaller id, the
  separator \<open>_\<close>, and the lexicographically larger id.
\<close>
theorem generateFriendshipId_symmetric:
  "generateFriendshipId a b = generateFriendshipId b a \<and>
   generateFriendshipId a b = min a b @ ''_'' @ max a b"
  by (auto simp: generateFriendshipId_def sortUserIds_def min_def max_def)


section \<open>Properties of the merge\<close>

text \<open>
  Claim C1. Merging an absent local copy with a remote copy returns the remote copy;
  merging a local copy with an absent remote copy returns the local copy; merging two
  present copies returns the local copy, whatever the two \<open>updatedAt\<close> timestamps are.
\<close>
theorem mergeBoards_local_wins:
  "mergeBoards None (Some remote) = Some remote \<and>
   mergeBoards (Some local) None = Some local \<and>
   mergeBoards (Some local) (Some remote) = Some local \<and>
   mergeBoards (Some (local\<lparr>board_updatedAt := t1\<rparr>)) (Some (remote\<lparr>board_updatedAt := t2\<rparr>))
     = Some (local\<lparr>board_updatedAt := t1\<rparr>)"
  by (simp add: mergeBoards_def)

subsection \<open>The merged list\<close>

lemma boardAt_SomeD: "boardAt bs i = Some b \<Longrightarrow> board_id b = i \<and> b \<in> set bs"
  by (auto simp: boardAt_def find_Some_iff)

lemma boardAt_None_iff: "boardAt bs i = None \<longleftrightarrow> i \<notin> set (boardIds bs)"
  by (auto simp: boardAt_def boardIds_def find_None_iff)

lemma mergeBoards_at_id:
  assumes "i \<in> set (boardIds ls) \<union> set (boardIds rs)"
  shows "\<exists>b. mergeBoards (boardAt ls i) (boardAt rs i) = Some b \<and> board_id b = i"
proof (cases "boardAt ls i")
  case None
  with assms have "i \<in> set (boardIds rs)" by (simp add: boardAt_None_iff)
  then obtain r where r: "boardAt rs i = Some r"
    using boardAt_None_iff [of rs i] by (cases "boardAt rs i") auto
  with None show ?thesis by (auto simp: mergeBoards_def dest: boardAt_SomeD)
next
  case (Some l)
  then show ?thesis by (auto simp: mergeBoards_def dest: boardAt_SomeD)
qed

lemma map_filter_ids:
  assumes "\<forall>i \<in> set is. \<exists>b. f i = Some b \<and> board_id b = i"
  shows "boardIds (List.map_filter f is) = is"
  using assms by (induction "is") (auto simp: List.map_filter_simps boardIds_def)

lemma boardIds_mergeBoardLists:
  "boardIds (mergeBoardLists ls rs) = remdups (boardIds ls @ boardIds rs)"
  unfolding mergeBoardLists_def
  by (rule map_filter_ids) (use mergeBoards_at_id in auto)

lemma boardAt_map_filter:
  assumes "distinct is" "i \<in> set is" "\<forall>j \<in> set is. \<exists>b. f j = Some b \<and> board_id b = j"
  shows "boardAt (List.map_filter f is) i = f i"
  using assms
proof (induction "is")
  case Nil
  then show ?case by simp
next
  case (Cons j js)
  then obtain b where b: "f j = Some b" "board_id b = j" by auto
  show ?case
  proof (cases "i = j")
    case True
    with b show ?thesis by (simp add: List.map_filter_simps boardAt_def)
  next
    case False
    with Cons b show ?thesis by (auto simp add: List.map_filter_simps boardAt_def)
  qed
qed

lemma boardAt_mergeBoardLists:
  assumes "i \<in> set (boardIds ls) \<union> set (boardIds rs)"
  shows "boardAt (mergeBoardLists ls rs) i = mergeBoards (boardAt ls i) (boardAt rs i)"
  unfolding mergeBoardLists_def
  by (rule boardAt_map_filter) (use assms mergeBoards_at_id in auto)

text \<open>
  Claim C2. The merged list holds exactly one entity per id of the union of the ids of
  the two lists, so its length is the size of that union; and for an id present on
  both sides the entity at that id in the result is the local copy.
\<close>
theorem mergeBoardLists_union:
  "length (mergeBoardLists ls rs) = card (set (boardIds ls) \<union> set (boardIds rs)) \<and>
   distinct (boardIds (mergeBoardLists ls rs)) \<and>
   set (boardIds (mergeBoardLists ls rs)) = set (boardIds ls) \<union> set (boardIds rs) \<and>
   (\<forall>i l r. boardAt ls i = Some l \<and> boardAt rs i = Some r \<longrightarrow>
      boardAt (mergeBoardLists ls rs) i = Some l \<and> l \<in> set (mergeBoardLists ls rs))"
proof -
  have ids: "boardIds (mergeBoardLists ls rs) = remdups (boardIds ls @ boardIds rs)"
    by (rule boardIds_mergeBoardLists)
  have "length (mergeBoardLists ls rs) = length (boardIds (mergeBoardLists ls rs))"
    by (simp add: boardIds_def)
  also have "\<dots> = card (set (boardIds ls @ boardIds rs))"
    unfolding ids by (rule length_remdups_card_conv)
  finally have len: "length (mergeBoardLists ls rs) = card (set (boardIds ls) \<union> set (boardIds rs))"
    by simp
  have both: "boardAt (mergeBoardLists ls rs) i = Some l \<and> l \<in> set (mergeBoardLists ls rs)"
    if "boardAt ls i = Some l" "boardAt rs i = Some r" for i l r
  proof -
    from that have "i \<in> set (boardIds ls) \<union> set (boardIds rs)"
      using boardAt_None_iff [of ls i] by auto
    then have "boardAt (mergeBoardLists ls rs) i = mergeBoards (boardAt ls i) (boardAt rs i)"
      by (rule boardAt_mergeBoardLists)
    with that have "boardAt (mergeBoardLists ls rs) i = Some l"
      by (simp add: mergeBoards_def)
    then show ?thesis by (auto dest: boardAt_SomeD)
  qed
  show ?thesis using len ids both by auto
qed

theorem mergeBoardLists_union_witness:
  "boardAt testLocalBoards ''board-2''
     = Some (mockBoard\<lparr>board_id := ''board-2'', board_name := ''Local Board 2''\<rparr>) \<and>
   boardAt testCloudBoards ''board-2''
     = Some (mockBoard\<lparr>board_id := ''board-2'', board_name := ''Cloud Board 2''\<rparr>) \<and>
   length (mergeBoardLists testLocalBoards testCloudBoards) = 3 \<and>
   boardAt (mergeBoardLists testLocalBoards testCloudBoards) ''board-2''
     = Some (mockBoard\<lparr>board_id := ''board-2'', board_name := ''Local Board 2''\<rparr>)"
proof -
  have l: "boardAt testLocalBoards ''board-2''
     = Some (mockBoard\<lparr>board_id := ''board-2'', board_name := ''Local Board 2''\<rparr>)"
    by (simp add: boardAt_def testLocalBoards_def mockBoard_def)
  have c: "boardAt testCloudBoards ''board-2''
     = Some (mockBoard\<lparr>board_id := ''board-2'', board_name := ''Cloud Board 2''\<rparr>)"
    by (simp add: boardAt_def testCloudBoards_def mockBoard_def)
  have n: "card (set (boardIds testLocalBoards) \<union> set (boardIds testCloudBoards)) = 3"
    by code_simp
  from mergeBoardLists_union [of testLocalBoards testCloudBoards] l c n show ?thesis
    by simp
qed

section \<open>Properties of the rate limiter\<close>


lemma numberToString_10: "numberToString 10 = ''10''"
  by (simp add: numberToString.simps digitChar_def)
lemma numberToString_20: "numberToString 20 = ''20''"
  by (simp add: numberToString.simps digitChar_def)
lemma numberToString_50: "numberToString 50 = ''50''"
  by (simp add: numberToString.simps digitChar_def)

lemma getDocsSize_reports:
  "queryFault be = None \<Longrightarrow>
   getDocsSize be ''reports'' u ''reporterId'' (now - ONE_DAY_MS) = Inr (reportsInWindow be now u)"
  by (simp add: getDocsSize_def reportsInWindow_def matchesQuery_def [abs_def])

lemma countDocumentsSince_not_rejected:
  "countDocumentsSince m be c u f s \<noteq> Inl e"
  by (simp add: countDocumentsSince_def split: sum.splits)

lemma countDocumentsSince_zero:
  "m \<or> queryFault be \<noteq> None \<Longrightarrow> countDocumentsSince m be c u f s = Inr 0"
  by (auto simp: countDocumentsSince_def getDocsSize_def split: sum.splits option.splits)

lemma limitResult_zero: "0 < c \<Longrightarrow> limitResult c 0 msg = \<lparr>allowed = True, remaining = int c, rl_error = None\<rparr>"
  by (simp add: limitResult_def Let_def)

text \<open>
  Claim C5, amended. For every non-empty user id, with \<open>USE_MOCK_AUTH\<close> off and a store
  query that succeeds, \<open>checkReportLimit\<close> returns \<open>remaining = max(0, 10 - n)\<close> where
  \<open>n\<close> is the number of the user's reports in the trailing 24 hours, \<open>allowed\<close> exactly
  when \<open>n\<close> is at most 9, and on denial the message that names the ceiling 10. In mock
  mode, or when the query fails, the count is taken as 0 and the check allows with 10
  remaining. For the empty user id, as for \<open>null\<close>, the check denies with "Not signed in".
\<close>
theorem checkReportLimit_window:
  "(u \<noteq> [] \<and> queryFault be = None \<longrightarrow>
      checkReportLimit False be now (Some u) =
        Inr \<lparr>allowed = (reportsInWindow be now u \<le> 9),
             remaining = max 0 (10 - int (reportsInWindow be now u)),
             rl_error = (if reportsInWindow be now u \<le> 9 then None
                         else Some ''You can only submit 10 reports per day. Please try again later.'')\<rparr>) \<and>
   (u \<noteq> [] \<and> (m \<or> queryFault be \<noteq> None) \<longrightarrow>
      checkReportLimit m be now (Some u) = Inr \<lparr>allowed = True, remaining = 10, rl_error = None\<rparr>) \<and>
   checkReportLimit m be now (Some []) =
      Inr \<lparr>allowed = False, remaining = 0, rl_error = Some ''Not signed in''\<rparr> \<and>
   checkReportLimit m be now None =
      Inr \<lparr>allowed = False, remaining = 0, rl_error = Some ''Not signed in''\<rparr>"
proof -
  have a: "checkReportLimit False be now (Some u) =
        Inr \<lparr>allowed = (reportsInWindow be now u \<le> 9),
             remaining = max 0 (10 - int (reportsInWindow be now u)),
             rl_error = (if reportsInWindow be now u \<le> 9 then None
                         else Some ''You can only submit 10 reports per day. Please try again later.'')\<rparr>"
    if "u \<noteq> []" "queryFault be = None"
    using that
    by (auto simp: checkReportLimit_def  RATE_LIMITS_reports_def countDocumentsSince_def
        getDocsSize_reports limitResult_def Let_def numberToString_10)
  have b: "checkReportLimit m be now (Some u) = Inr \<lparr>allowed = True, remaining = 10, rl_error = None\<rparr>"
    if "u \<noteq> []" "m \<or> queryFault be \<noteq> None"
    using that
    by (simp add: checkReportLimit_def  RATE_LIMITS_reports_def countDocumentsSince_zero
        limitResult_zero Let_def)
  have c: "checkReportLimit m be now (Some []) =
      Inr \<lparr>allowed = False, remaining = 0, rl_error = Some ''Not signed in''\<rparr>"
    "checkReportLimit m be now None =
      Inr \<lparr>allowed = False, remaining = 0, rl_error = Some ''Not signed in''\<rparr>"
    by (simp_all add: checkReportLimit_def  notSignedIn_def)
  from a b c show ?thesis by blast
qed

lemma reportsInWindow_reportsStore:
  "t \<ge> now - ONE_DAY_MS \<Longrightarrow> reportsInWindow (reportsStore f n u t) now u = n"
  by (simp add: reportsInWindow_def reportsStore_def)

theorem checkReportLimit_window_witness:
  "''user-abc'' \<noteq> [] \<and> queryFault (reportsStore None 9 ''user-abc'' 0) = None \<and>
   reportsInWindow (reportsStore None 9 ''user-abc'' 0) 1000 ''user-abc'' = 9 \<and>
   checkReportLimit False (reportsStore None 9 ''user-abc'' 0) 1000 (Some ''user-abc'') =
     Inr \<lparr>allowed = True, remaining = 1, rl_error = None\<rparr> \<and>
   reportsInWindow (reportsStore None 10 ''user-abc'' 0) 1000 ''user-abc'' = 10 \<and>
   checkReportLimit False (reportsStore None 10 ''user-abc'' 0) 1000 (Some ''user-abc'') =
     Inr \<lparr>allowed = False, remaining = 0,
          rl_error = Some ''You can only submit 10 reports per day. Please try again later.''\<rparr> \<and>
   checkReportLimit True (reportsStore None 9 ''user-abc'' 0) 1000 (Some ''user-abc'') =
     Inr \<lparr>allowed = True, remaining = 10, rl_error = None\<rparr>"
proof -
  have q: "queryFault (reportsStore None n ''user-abc'' 0) = None" for n
    by (simp add: reportsStore_def)
  have w: "reportsInWindow (reportsStore None n ''user-abc'' 0) 1000 ''user-abc'' = n" for n
    by (rule reportsInWindow_reportsStore) (simp add: ONE_DAY_MS_def)
  show ?thesis
    using checkReportLimit_window [of "''user-abc''" "reportsStore None 9 ''user-abc'' 0" 1000 True]
      checkReportLimit_window [of "''user-abc''" "reportsStore None 10 ''user-abc'' 0" 1000 True]
    by (simp add: q w)
qed

text \<open>
  The claim as stated fails: in mock mode, and when the query fails, a user with ten
  reports in the window is allowed; and the empty user id, which is not \<open>null\<close>, is
  denied with no report at all.
\<close>
theorem checkReportLimit_window_counterexample:
  "reportsInWindow (reportsStore None 10 ''user-abc'' 0) 1000 ''user-abc'' = 10 \<and>
   checkReportLimit True (reportsStore None 10 ''user-abc'' 0) 1000 (Some ''user-abc'') =
     Inr \<lparr>allowed = True, remaining = 10, rl_error = None\<rparr> \<and>
   reportsInWindow (reportsStore (Some (ErrorObj ''unavailable'')) 10 ''user-abc'' 0) 1000 ''user-abc'' = 10 \<and>
   checkReportLimit False (reportsStore (Some (ErrorObj ''unavailable'')) 10 ''user-abc'' 0) 1000
       (Some ''user-abc'') =
     Inr \<lparr>allowed = True, remaining = 10, rl_error = None\<rparr> \<and>
   reportsInWindow (reportsStore None 0 [] 0) 1000 [] = 0 \<and>
   checkReportLimit False (reportsStore None 0 [] 0) 1000 (Some []) =
     Inr \<lparr>allowed = False, remaining = 0, rl_error = Some ''Not signed in''\<rparr>"
proof -
  have w: "reportsInWindow (reportsStore f n u 0) 1000 u = n" for f n u
    by (rule reportsInWindow_reportsStore) (simp add: ONE_DAY_MS_def)
  have m: "checkReportLimit True (reportsStore None 10 ''user-abc'' 0) 1000 (Some ''user-abc'') =
     Inr \<lparr>allowed = True, remaining = 10, rl_error = None\<rparr>"
    by (simp add: checkReportLimit_def  RATE_LIMITS_reports_def countDocumentsSince_def
        limitResult_def Let_def)
  have f: "checkReportLimit False (reportsStore (Some (ErrorObj ''unavailable'')) 10 ''user-abc'' 0) 1000
       (Some ''user-abc'') = Inr \<lparr>allowed = True, remaining = 10, rl_error = None\<rparr>"
    by (simp add: checkReportLimit_def  RATE_LIMITS_reports_def countDocumentsSince_def
        getDocsSize_def reportsStore_def limitResult_def Let_def)
  have e: "checkReportLimit False (reportsStore None 0 [] 0) 1000 (Some []) =
     Inr \<lparr>allowed = False, remaining = 0, rl_error = Some ''Not signed in''\<rparr>"
    by (simp add: checkReportLimit_def  notSignedIn_def)
  from w m f e show ?thesis by simp
qed

text \<open>
  Claim C9, amended. No rate-limit check rejects: each returns a result for every
  input. When the store query fails, the fault is swallowed by \<open>countDocumentsSince\<close>,
  the count is taken as 0, and for a signed-in user each check returns its normal
  allowing result: \<open>allowed = true\<close>, \<open>remaining\<close> the configured ceiling, no error.
\<close>
theorem rate_limit_checks_query_failure:
  "(\<exists>r. checkFriendRequestLimit m be now uid = Inr r) \<and>
   (\<exists>r. checkReportLimit m be now uid = Inr r) \<and>
   (\<exists>r. checkBoardCreationLimit m be now uid = Inr r) \<and>
   (queryFault be \<noteq> None \<and> u \<noteq> [] \<longrightarrow>
      checkFriendRequestLimit m be now (Some u) =
        Inr \<lparr>allowed = True, remaining = 20, rl_error = None\<rparr> \<and>
      checkReportLimit m be now (Some u) =
        Inr \<lparr>allowed = True, remaining = 10, rl_error = None\<rparr> \<and>
      checkBoardCreationLimit m be now (Some u) =
        Inr \<lparr>allowed = True, remaining = 50, rl_error = None\<rparr>)"
proof -
  have t: "\<exists>r. checkFriendRequestLimit m be now uid = Inr r"
    "\<exists>r. checkReportLimit m be now uid = Inr r"
    "\<exists>r. checkBoardCreationLimit m be now uid = Inr r"
    by (auto simp: checkFriendRequestLimit_def checkReportLimit_def checkBoardCreationLimit_def
        countDocumentsSince_not_rejected Let_def split: sum.splits option.splits)
  have z: "checkFriendRequestLimit m be now (Some u) =
        Inr \<lparr>allowed = True, remaining = 20, rl_error = None\<rparr> \<and>
      checkReportLimit m be now (Some u) =
        Inr \<lparr>allowed = True, remaining = 10, rl_error = None\<rparr> \<and>
      checkBoardCreationLimit m be now (Some u) =
        Inr \<lparr>allowed = True, remaining = 50, rl_error = None\<rparr>"
    if "queryFault be \<noteq> None" "u \<noteq> []"
    using that
    by (simp add: checkFriendRequestLimit_def checkReportLimit_def checkBoardCreationLimit_def
        RATE_LIMITS_friendRequests_def RATE_LIMITS_reports_def RATE_LIMITS_boards_def
        countDocumentsSince_zero limitResult_zero Let_def)
  from t z show ?thesis by blast
qed

theorem rate_limit_checks_query_failure_witness:
  "queryFault (reportsStore (Some (ErrorObj ''unavailable'')) 3 ''user-abc'' 0) \<noteq> None \<and>
   ''user-abc'' \<noteq> [] \<and>
   checkReportLimit False (reportsStore (Some (ErrorObj ''unavailable'')) 3 ''user-abc'' 0) 1000
      (Some ''user-abc'') = Inr \<lparr>allowed = True, remaining = 10, rl_error = None\<rparr> \<and>
   checkFriendRequestLimit False (reportsStore (Some (ErrorObj ''unavailable'')) 3 ''user-abc'' 0) 1000
      (Some ''user-abc'') = Inr \<lparr>allowed = True, remaining = 20, rl_error = None\<rparr> \<and>
   checkBoardCreationLimit False (reportsStore (Some (ErrorObj ''unavailable'')) 3 ''user-abc'' 0) 1000
      (Some ''user-abc'') = Inr \<lparr>allowed = True, remaining = 50, rl_error = None\<rparr>"
  using rate_limit_checks_query_failure
    [of False "reportsStore (Some (ErrorObj ''unavailable'')) 3 ''user-abc'' 0" 1000 "Some ''user-abc''"
      "''user-abc''"]
  by (simp add: reportsStore_def)

text \<open>
  The claim as stated fails: with a failing query the check returns the same result as
  for a user with no reports, not an error result.
\<close>
theorem rate_limit_query_failure_counterexample:
  "queryFault (reportsStore (Some OtherValue) 0 ''user-abc'' 0) = Some OtherValue \<and>
   checkReportLimit False (reportsStore (Some OtherValue) 0 ''user-abc'' 0) 1000 (Some ''user-abc'') =
     Inr \<lparr>allowed = True, remaining = 10, rl_error = None\<rparr>"
  by (simp add: checkReportLimit_def  RATE_LIMITS_reports_def countDocumentsSince_def
        getDocsSize_def reportsStore_def limitResult_def Let_def)

section \<open>Properties of the friendship service\<close>

lemma sortUserIds_min_max: "sortUserIds a b = (min a b, max a b)"
  by (simp add: sortUserIds_def min_def max_def)

lemma generateFriendshipId_u1_u2:
  "generateFriendshipId ''u1'' ''u2'' = ''u1_u2''"
  by code_simp

lemma noFaults_example [simp]:
  "noFaults emptyFirestore" "noFaults (firestoreU1U2 st)"
  by (simp_all add: noFaults_def emptyFirestore_def firestoreU1U2_def)

text \<open>
  Claim C7, amended. \<open>createFriendRequest(from, to)\<close> fails with the self-request error
  when \<open>from = to\<close>. Otherwise, in mock mode it returns success with the id and neither
  reads nor writes the store. With \<open>USE_MOCK_AUTH\<close> off: when the connection or the
  lookup is rejected it returns \<open>success = false\<close> with the thrown \<open>Error\<close>'s message, or
  with "Failed to send friend request" when the thrown value is no \<open>Error\<close>; when both
  succeed, an existing document of the pair with status \<open>active\<close> gives the error
  "already friends" and one with status \<open>pending\<close> the error "already pending"; with
  no document it stores
  \<open>{id, users: [sortedA, sortedB], status: 'pending', requestedBy: from, createdAt: now}\<close>
  and returns success with the id, unless the write is rejected, which gives
  \<open>success = false\<close> with the message as above. Every failure leaves the store unchanged.
\<close>
theorem createFriendRequest_cases:
  "createFriendRequest m now fs a a =
      (failed ''You can't send a friend request to yourself'', fs) \<and>
   (a \<noteq> b \<and> m \<longrightarrow>
      createFriendRequest m now fs a b = (succeeded (generateFriendshipId a b), fs)) \<and>
   (a \<noteq> b \<and> \<not> m \<and> connectFault fs = Some e \<longrightarrow>
      createFriendRequest m now fs a b =
        (failed (messageOr e ''Failed to send friend request''), fs)) \<and>
   (a \<noteq> b \<and> \<not> m \<and> connectFault fs = None \<and> getDocFault fs = Some e \<longrightarrow>
      createFriendRequest m now fs a b =
        (failed (messageOr e ''Failed to send friend request''), fs)) \<and>
   (a \<noteq> b \<and> \<not> m \<and> connectFault fs = None \<and> getDocFault fs = None \<longrightarrow>
      (\<forall>d. friendshipDocs fs (generateFriendshipId a b) = Some d \<and> status d = active \<longrightarrow>
         createFriendRequest m now fs a b =
           (failed ''You are already friends with this user'', fs)) \<and>
      (\<forall>d. friendshipDocs fs (generateFriendshipId a b) = Some d \<and> status d = pending \<longrightarrow>
         createFriendRequest m now fs a b =
           (failed ''A friend request is already pending'', fs)) \<and>
      (friendshipDocs fs (generateFriendshipId a b) = None \<and> writeFault fs = Some e \<longrightarrow>
         createFriendRequest m now fs a b =
           (failed (messageOr e ''Failed to send friend request''), fs)) \<and>
      (friendshipDocs fs (generateFriendshipId a b) = None \<and> writeFault fs = None \<longrightarrow>
         createFriendRequest m now fs a b =
           (succeeded (generateFriendshipId a b),
            fs\<lparr>friendshipDocs := (friendshipDocs fs)(generateFriendshipId a b \<mapsto>
               \<lparr>fr_id = generateFriendshipId a b, users = [min a b, max a b],
                status = pending, requestedBy = a, fr_createdAt = now,
                acceptedAt = None\<rparr>)\<rparr>)))"
proof -
  have self: "createFriendRequest m now fs a a =
      (failed ''You can't send a friend request to yourself'', fs)"
    by (simp add: createFriendRequest_def)
  have mock: "createFriendRequest m now fs a b = (succeeded (generateFriendshipId a b), fs)"
    if "a \<noteq> b" "m"
    using that by (simp add: createFriendRequest_def)
  have conn: "createFriendRequest m now fs a b =
        (failed (messageOr e ''Failed to send friend request''), fs)"
    if "a \<noteq> b" "\<not> m" "connectFault fs = Some e"
    using that by (simp add: createFriendRequest_def)
  have look: "createFriendRequest m now fs a b =
        (failed (messageOr e ''Failed to send friend request''), fs)"
    if "a \<noteq> b" "\<not> m" "connectFault fs = None" "getDocFault fs = Some e"
    using that by (simp add: createFriendRequest_def Let_def)
  have act: "createFriendRequest m now fs a b =
           (failed ''You are already friends with this user'', fs)"
    if "a \<noteq> b" "\<not> m" "connectFault fs = None" "getDocFault fs = None"
      "friendshipDocs fs (generateFriendshipId a b) = Some d" "status d = active" for d
    using that by (simp add: createFriendRequest_def Let_def)
  have pen: "createFriendRequest m now fs a b =
           (failed ''A friend request is already pending'', fs)"
    if "a \<noteq> b" "\<not> m" "connectFault fs = None" "getDocFault fs = None"
      "friendshipDocs fs (generateFriendshipId a b) = Some d" "status d = pending" for d
    using that by (simp add: createFriendRequest_def Let_def)
  have wr: "createFriendRequest m now fs a b =
           (failed (messageOr e ''Failed to send friend request''), fs)"
    if "a \<noteq> b" "\<not> m" "connectFault fs = None" "getDocFault fs = None"
      "friendshipDocs fs (generateFriendshipId a b) = None" "writeFault fs = Some e"
    using that by (simp add: createFriendRequest_def Let_def sortUserIds_min_max)
  have new: "createFriendRequest m now fs a b =
           (succeeded (generateFriendshipId a b),
            fs\<lparr>friendshipDocs := (friendshipDocs fs)(generateFriendshipId a b \<mapsto>
               \<lparr>fr_id = generateFriendshipId a b, users = [min a b, max a b],
                status = pending, requestedBy = a, fr_createdAt = now,
                acceptedAt = None\<rparr>)\<rparr>)"
    if "a \<noteq> b" "\<not> m" "connectFault fs = None" "getDocFault fs = None"
      "friendshipDocs fs (generateFriendshipId a b) = None" "writeFault fs = None"
    using that by (simp add: createFriendRequest_def Let_def sortUserIds_min_max)
  from self mock conn look act pen wr new show ?thesis by blast
qed

theorem createFriendRequest_cases_witness:
  "''u1'' \<noteq> ''u2'' \<and> connectFault emptyFirestore = None \<and> getDocFault emptyFirestore = None \<and>
   writeFault emptyFirestore = None \<and>
   friendshipDocs emptyFirestore (generateFriendshipId ''u1'' ''u2'') = None \<and>
   fst (createFriendRequest False 2000 emptyFirestore ''u1'' ''u2'') = succeeded ''u1_u2'' \<and>
   friendshipDocs (snd (createFriendRequest False 2000 emptyFirestore ''u1'' ''u2'')) ''u1_u2'' =
     Some \<lparr>fr_id = ''u1_u2'', users = [''u1'', ''u2''], status = pending,
           requestedBy = ''u1'', fr_createdAt = 2000, acceptedAt = None\<rparr> \<and>
   friendshipDocs (firestoreU1U2 pending) (generateFriendshipId ''u1'' ''u2'') =
     Some (requestU1U2 pending) \<and>
   createFriendRequest False 2000 (firestoreU1U2 pending) ''u1'' ''u2'' =
     (failed ''A friend request is already pending'', firestoreU1U2 pending) \<and>
   friendshipDocs (firestoreU1U2 active) (generateFriendshipId ''u1'' ''u2'') =
     Some (requestU1U2 active) \<and>
   createFriendRequest False 2000 (firestoreU1U2 active) ''u1'' ''u2'' =
     (failed ''You are already friends with this user'', firestoreU1U2 active) \<and>
   writeFault (emptyFirestore\<lparr>writeFault := Some (ErrorObj ''unavailable'')\<rparr>) =
     Some (ErrorObj ''unavailable'') \<and>
   createFriendRequest False 2000 (emptyFirestore\<lparr>writeFault := Some (ErrorObj ''unavailable'')\<rparr>)
       ''u1'' ''u2'' =
     (failed ''unavailable'', emptyFirestore\<lparr>writeFault := Some (ErrorObj ''unavailable'')\<rparr>) \<and>
   connectFault (emptyFirestore\<lparr>connectFault := Some OtherValue\<rparr>) = Some OtherValue \<and>
   createFriendRequest False 2000 (emptyFirestore\<lparr>connectFault := Some OtherValue\<rparr>)
       ''u1'' ''u2'' =
     (failed ''Failed to send friend request'', emptyFirestore\<lparr>connectFault := Some OtherValue\<rparr>)"
proof -
  have e: "friendshipDocs emptyFirestore i = None" "connectFault emptyFirestore = None"
    "getDocFault emptyFirestore = None" "writeFault emptyFirestore = None" for i
    by (simp_all add: emptyFirestore_def)
  have d: "friendshipDocs (firestoreU1U2 st) ''u1_u2'' = Some (requestU1U2 st)"
    "connectFault (firestoreU1U2 st) = None" "getDocFault (firestoreU1U2 st) = None" for st
    by (simp_all add: firestoreU1U2_def emptyFirestore_def)
  have s: "status (requestU1U2 st) = st" for st
    by (simp add: requestU1U2_def)
  have mm: "min ''u1'' ''u2'' = ''u1''" "max ''u1'' ''u2'' = ''u2''"
    by code_simp+
  show ?thesis
    using createFriendRequest_cases [of False 2000 emptyFirestore "''u1''" "''u2''"]
      createFriendRequest_cases [of False 2000 "firestoreU1U2 pending" "''u1''" "''u2''"]
      createFriendRequest_cases [of False 2000 "firestoreU1U2 active" "''u1''" "''u2''"]
      createFriendRequest_cases [of False 2000
        "emptyFirestore\<lparr>writeFault := Some (ErrorObj ''unavailable'')\<rparr>" "''u1''" "''u2''"
        "ErrorObj ''unavailable''"]
      createFriendRequest_cases [of False 2000
        "emptyFirestore\<lparr>connectFault := Some OtherValue\<rparr>" "''u1''" "''u2''" OtherValue]
    by (simp add: e d s mm generateFriendshipId_u1_u2 messageOr_def)
qed

text \<open>
  The claim as stated fails: in mock mode a request between two users who are already
  friends succeeds; and when the write to the store is rejected the request neither
  succeeds nor creates a document.
\<close>
theorem createFriendRequest_counterexample:
  "friendshipDocs (firestoreU1U2 active) (generateFriendshipId ''u1'' ''u2'') =
     Some (requestU1U2 active) \<and>
   status (requestU1U2 active) = active \<and>
   createFriendRequest True 2000 (firestoreU1U2 active) ''u1'' ''u2'' =
     (succeeded ''u1_u2'', firestoreU1U2 active) \<and>
   friendshipDocs (emptyFirestore\<lparr>writeFault := Some (ErrorObj ''unavailable'')\<rparr>)
       (generateFriendshipId ''u1'' ''u2'') = None \<and>
   createFriendRequest False 2000 (emptyFirestore\<lparr>writeFault := Some (ErrorObj ''unavailable'')\<rparr>)
       ''u1'' ''u2'' =
     (failed ''unavailable'', emptyFirestore\<lparr>writeFault := Some (ErrorObj ''unavailable'')\<rparr>)"
  by (simp add: createFriendRequest_def generateFriendshipId_u1_u2 firestoreU1U2_def
      requestU1U2_def emptyFirestore_def messageOr_def Let_def sortUserIds_def)

text \<open>
  Claim C8, amended. In mock mode \<open>acceptFriendRequest(id, acceptingUid)\<close> returns
  success and neither reads nor writes the store. With \<open>USE_MOCK_AUTH\<close> off: when the
  connection or the lookup is rejected it returns \<open>success = false\<close> with the thrown
  \<open>Error\<close>'s message, or with "Failed to accept friend request" when the thrown value
  is no \<open>Error\<close>; when both succeed it fails with "Friend request not found" when no
  document has the id, with the self-accept error when \<open>acceptingUid\<close> is the
  document's \<open>requestedBy\<close>, and with "You are not part of this friend request" when
  \<open>acceptingUid\<close> is not in its \<open>users\<close>; otherwise it sets \<open>status\<close> to \<open>active\<close> and
  \<open>acceptedAt\<close> to the current time and returns success, unless the update is
  rejected, which gives \<open>success = false\<close> with the message as above. Every failure
  leaves the store unchanged.
\<close>
theorem acceptFriendRequest_cases:
  "(m \<longrightarrow> acceptFriendRequest m now fs i u = (succeeded i, fs)) \<and>
   (\<not> m \<and> connectFault fs = Some e \<longrightarrow>
      acceptFriendRequest m now fs i u =
        (failed (messageOr e ''Failed to accept friend request''), fs)) \<and>
   (\<not> m \<and> connectFault fs = None \<and> getDocFault fs = Some e \<longrightarrow>
      acceptFriendRequest m now fs i u =
        (failed (messageOr e ''Failed to accept friend request''), fs)) \<and>
   (\<not> m \<and> connectFault fs = None \<and> getDocFault fs = None \<longrightarrow>
      (friendshipDocs fs i = None \<longrightarrow>
         acceptFriendRequest m now fs i u = (failed ''Friend request not found'', fs)) \<and>
      (\<forall>d. friendshipDocs fs i = Some d \<and> requestedBy d = u \<longrightarrow>
         acceptFriendRequest m now fs i u =
           (failed ''You can't accept your own friend request'', fs)) \<and>
      (\<forall>d. friendshipDocs fs i = Some d \<and> requestedBy d \<noteq> u \<and> u \<notin> set (users d) \<longrightarrow>
         acceptFriendRequest m now fs i u =
           (failed ''You are not part of this friend request'', fs)) \<and>
      (\<forall>d. friendshipDocs fs i = Some d \<and> requestedBy d \<noteq> u \<and> u \<in> set (users d) \<and>
           writeFault fs = Some e \<longrightarrow>
         acceptFriendRequest m now fs i u =
           (failed (messageOr e ''Failed to accept friend request''), fs)) \<and>
      (\<forall>d. friendshipDocs fs i = Some d \<and> requestedBy d \<noteq> u \<and> u \<in> set (users d) \<and>
           writeFault fs = None \<longrightarrow>
         acceptFriendRequest m now fs i u =
           (succeeded i,
            fs\<lparr>friendshipDocs := (friendshipDocs fs)(i \<mapsto>
               d\<lparr>status := active, acceptedAt := Some now\<rparr>)\<rparr>)))"
proof -
  have mock: "m \<longrightarrow> acceptFriendRequest m now fs i u = (succeeded i, fs)"
    by (simp add: acceptFriendRequest_def)
  have conn: "\<not> m \<and> connectFault fs = Some e \<longrightarrow>
      acceptFriendRequest m now fs i u =
        (failed (messageOr e ''Failed to accept friend request''), fs)"
    by (simp add: acceptFriendRequest_def)
  have look: "\<not> m \<and> connectFault fs = None \<and> getDocFault fs = Some e \<longrightarrow>
      acceptFriendRequest m now fs i u =
        (failed (messageOr e ''Failed to accept friend request''), fs)"
    by (simp add: acceptFriendRequest_def)
  have ok: "\<not> m \<and> connectFault fs = None \<and> getDocFault fs = None \<longrightarrow>
      (friendshipDocs fs i = None \<longrightarrow>
         acceptFriendRequest m now fs i u = (failed ''Friend request not found'', fs)) \<and>
      (\<forall>d. friendshipDocs fs i = Some d \<and> requestedBy d = u \<longrightarrow>
         acceptFriendRequest m now fs i u =
           (failed ''You can't accept your own friend request'', fs)) \<and>
      (\<forall>d. friendshipDocs fs i = Some d \<and> requestedBy d \<noteq> u \<and> u \<notin> set (users d) \<longrightarrow>
         acceptFriendRequest m now fs i u =
           (failed ''You are not part of this friend request'', fs)) \<and>
      (\<forall>d. friendshipDocs fs i = Some d \<and> requestedBy d \<noteq> u \<and> u \<in> set (users d) \<and>
           writeFault fs = Some e \<longrightarrow>
         acceptFriendRequest m now fs i u =
           (failed (messageOr e ''Failed to accept friend request''), fs)) \<and>
      (\<forall>d. friendshipDocs fs i = Some d \<and> requestedBy d \<noteq> u \<and> u \<in> set (users d) \<and>
           writeFault fs = None \<longrightarrow>
         acceptFriendRequest m now fs i u =
           (succeeded i,
            fs\<lparr>friendshipDocs := (friendshipDocs fs)(i \<mapsto>
               d\<lparr>status := active, acceptedAt := Some now\<rparr>)\<rparr>))"
    by (simp add: acceptFriendRequest_def)
  from mock conn look ok show ?thesis by blast
qed

theorem acceptFriendRequest_cases_witness:
  "connectFault (firestoreU1U2 pending) = None \<and> getDocFault (firestoreU1U2 pending) = None \<and>
   writeFault (firestoreU1U2 pending) = None \<and>
   friendshipDocs (firestoreU1U2 pending) ''u1_u2'' = Some (requestU1U2 pending) \<and>
   acceptFriendRequest False 3000 (firestoreU1U2 pending) ''u1_u2'' ''u1'' =
     (failed ''You can't accept your own friend request'', firestoreU1U2 pending) \<and>
   acceptFriendRequest False 3000 (firestoreU1U2 pending) ''u1_u2'' ''u3'' =
     (failed ''You are not part of this friend request'', firestoreU1U2 pending) \<and>
   fst (acceptFriendRequest False 3000 (firestoreU1U2 pending) ''u1_u2'' ''u2'') =
     succeeded ''u1_u2'' \<and>
   friendshipDocs (snd (acceptFriendRequest False 3000 (firestoreU1U2 pending) ''u1_u2'' ''u2''))
       ''u1_u2'' =
     Some \<lparr>fr_id = ''u1_u2'', users = [''u1'', ''u2''], status = active,
           requestedBy = ''u1'', fr_createdAt = 1000, acceptedAt = Some 3000\<rparr> \<and>
   friendshipDocs emptyFirestore ''u1_u2'' = None \<and>
   acceptFriendRequest False 3000 emptyFirestore ''u1_u2'' ''u2'' =
     (failed ''Friend request not found'', emptyFirestore) \<and>
   writeFault ((firestoreU1U2 pending)\<lparr>writeFault := Some (ErrorObj ''unavailable'')\<rparr>) =
     Some (ErrorObj ''unavailable'') \<and>
   acceptFriendRequest False 3000
       ((firestoreU1U2 pending)\<lparr>writeFault := Some (ErrorObj ''unavailable'')\<rparr>) ''u1_u2'' ''u2'' =
     (failed ''unavailable'', (firestoreU1U2 pending)\<lparr>writeFault := Some (ErrorObj ''unavailable'')\<rparr>) \<and>
   getDocFault (emptyFirestore\<lparr>getDocFault := Some OtherValue\<rparr>) = Some OtherValue \<and>
   acceptFriendRequest False 3000 (emptyFirestore\<lparr>getDocFault := Some OtherValue\<rparr>)
       ''u1_u2'' ''u2'' =
     (failed ''Failed to accept friend request'', emptyFirestore\<lparr>getDocFault := Some OtherValue\<rparr>)"
proof -
  have d: "friendshipDocs (firestoreU1U2 pending) ''u1_u2'' = Some (requestU1U2 pending)"
    "friendshipDocs emptyFirestore ''u1_u2'' = None"
    "connectFault (firestoreU1U2 pending) = None" "getDocFault (firestoreU1U2 pending) = None"
    "writeFault (firestoreU1U2 pending) = None"
    "connectFault emptyFirestore = None" "getDocFault emptyFirestore = None"
    by (simp_all add: firestoreU1U2_def emptyFirestore_def)
  have r: "requestedBy (requestU1U2 pending) = ''u1''"
    "users (requestU1U2 pending) = [''u1'', ''u2'']"
    by (simp_all add: requestU1U2_def)
  show ?thesis
    using acceptFriendRequest_cases [of False 3000 "firestoreU1U2 pending" "''u1_u2''" "''u1''"]
      acceptFriendRequest_cases [of False 3000 "firestoreU1U2 pending" "''u1_u2''" "''u2''"]
      acceptFriendRequest_cases [of False 3000 "firestoreU1U2 pending" "''u1_u2''" "''u3''"]
      acceptFriendRequest_cases [of False 3000 emptyFirestore "''u1_u2''" "''u2''"]
      acceptFriendRequest_cases [of False 3000
        "(firestoreU1U2 pending)\<lparr>writeFault := Some (ErrorObj ''unavailable'')\<rparr>" "''u1_u2''"
        "''u2''" "ErrorObj ''unavailable''"]
      acceptFriendRequest_cases [of False 3000
        "emptyFirestore\<lparr>getDocFault := Some OtherValue\<rparr>" "''u1_u2''" "''u2''" OtherValue]
    by (simp add: d r messageOr_def) (simp add: requestU1U2_def)
qed

text \<open>
  The claim as stated fails: in mock mode accepting a request that does not exist
  succeeds, and so does accepting one's own request; and when the update of the store
  is rejected the request stays pending and no success is returned.
\<close>
theorem acceptFriendRequest_counterexample:
  "friendshipDocs emptyFirestore ''u1_u2'' = None \<and>
   acceptFriendRequest True 3000 emptyFirestore ''u1_u2'' ''u2'' =
     (succeeded ''u1_u2'', emptyFirestore) \<and>
   requestedBy (requestU1U2 pending) = ''u1'' \<and>
   acceptFriendRequest True 3000 (firestoreU1U2 pending) ''u1_u2'' ''u1'' =
     (succeeded ''u1_u2'', firestoreU1U2 pending) \<and>
   acceptFriendRequest False 3000 ((firestoreU1U2 pending)\<lparr>writeFault := Some OtherValue\<rparr>)
       ''u1_u2'' ''u2'' =
     (failed ''Failed to accept friend request'',
      (firestoreU1U2 pending)\<lparr>writeFault := Some OtherValue\<rparr>)"
  by (simp add: acceptFriendRequest_def firestoreU1U2_def requestU1U2_def emptyFirestore_def
      messageOr_def)




section \<open>Properties of the snapshot history\<close>






















section \<open>Properties of the Rank Manager\<close>

subsection \<open>Dense lists of ranks\<close>





subsection \<open>The keyed collection\<close>







subsection \<open>The three operations\<close>





lemma afterDelete_fields [simp]:
  "card_id (afterDelete now t c) = card_id c"
  "boardId (afterDelete now t c) = boardId c"
  by (simp_all add: afterDelete_def)





lemma rerank_fields [simp]:
  "card_id (rerank now no c) = card_id c"
  "boardId (rerank now no c) = boardId c"
  "card_deletedAt (rerank now no c) = card_deletedAt c"
  by (simp_all add: rerank_def split: option.splits)



subsection \<open>The seed loader\<close>




lemma cards_savePlaceholder:
  "cards (case savePlaceholder imageFault k s of Inr s' \<Rightarrow> f s' | Inl e \<Rightarrow> g s) =
   (case savePlaceholder imageFault k s of Inr s' \<Rightarrow> cards (f s') | Inl e \<Rightarrow> cards (g s))"
  by (simp split: sum.splits)










subsection \<open>Sequences of operations\<close>













text \<open>
  Outside the scope the operations as the spec words them do not keep the ranks
  dense. Deleting card \<open>A\<close> of the board \<open>A = 1, B = 2, C = 3\<close> twice decrements \<open>C\<close>
  twice and leaves \<open>B = 1, C = 1\<close>; appending a card with the id of \<open>A\<close> to the board
  \<open>A = 1, B = 2\<close> replaces \<open>A\<close> and leaves \<open>A = 3, B = 2\<close>.
\<close>
lemma rank_ops_out_of_scope:
  "keyedCards boardB1 \<and> denseRanks boardB1 ''b1'' \<and>
   map (\<lambda>c. (card_id c, rank c)) (activeCards (runRankOps boardB1 deleteTwiceOps) ''b1'') =
     [(''B'', 1), (''C'', 1)] \<and>
   \<not> denseRanks (runRankOps boardB1 deleteTwiceOps) ''b1'' \<and>
   map (\<lambda>c. (card_id c, rank c)) (activeCards (runRankOps boardB1 appendTwiceOps) ''b1'') =
     [(''A'', 3), (''B'', 2)] \<and>
   \<not> denseRanks (runRankOps boardB1 appendTwiceOps) ''b1''"
proof -
  have k: "keyedCards boardB1" and d: "denseRanks boardB1 ''b1''"
    by (simp_all add: keyedCards_def denseRanks_def activeCards_def boardB1_def emptyStore_def)
  have r1: "map (\<lambda>c. (card_id c, rank c)) (activeCards (runRankOps boardB1 deleteTwiceOps) ''b1'') =
     [(''B'', 1), (''C'', 1)]"
    by code_simp
  have n1: "\<not> denseRanks (runRankOps boardB1 deleteTwiceOps) ''b1''"
    by code_simp
  have r2: "map (\<lambda>c. (card_id c, rank c)) (activeCards (runRankOps boardB1 appendTwiceOps) ''b1'') =
     [(''A'', 3), (''B'', 2)]"
    by code_simp
  have n2: "\<not> denseRanks (runRankOps boardB1 appendTwiceOps) ''b1''"
    by code_simp
  from k d r1 n1 r2 n2 show ?thesis by simp
qed

end
